theory Spec2Isabelle
  imports Complex_Main
begin

section \<open>Python values, errors and list operations\<close>

text \<open>
  Exceptions are values. The first five constructors are the Python exceptions the
  modelled code can raise itself; \<open>ExternalError\<close> stands for any exception
  coming out of an external collaborator (tokenizer, model hub, language model), and
  \<open>InvalidReference\<close> for an address outside the object store, which no Python
  reference can be.
\<close>

datatype error =
    ValueError
  | IndexError
  | KeyError
  | TypeError
  | AttributeError
  | ExternalError string
  | InvalidReference

text \<open>\<^verbatim>\<open>xs.index(x)\<close>: the first position holding \<open>x\<close>, ValueError when there is none.\<close>

fun list_index :: "'a list \<Rightarrow> 'a \<Rightarrow> error + nat" where
  "list_index [] x = Inl ValueError"
| "list_index (y # ys) x =
     (if y = x then Inr 0
      else (case list_index ys x of Inl e \<Rightarrow> Inl e | Inr n \<Rightarrow> Inr (Suc n)))"

text \<open>\<^verbatim>\<open>xs[i]\<close> for a non-negative position: IndexError past the end.\<close>

definition item :: "'a list \<Rightarrow> nat \<Rightarrow> error + 'a" where
  "item xs i = (if i < length xs then Inr (xs ! i) else Inl IndexError)"

text \<open>\<^verbatim>\<open>t[i, j]\<close> on a tensor with at least two dimensions.\<close>

definition item2 :: "'a list list \<Rightarrow> nat \<Rightarrow> nat \<Rightarrow> error + 'a" where
  "item2 t i j = (case item t i of Inl e \<Rightarrow> Inl e | Inr row \<Rightarrow> item row j)"

text \<open>\<^verbatim>\<open>d[k]\<close> on a dict kept as an association list: KeyError for a missing key.\<close>

definition getitem :: "('k \<times> 'v) list \<Rightarrow> 'k \<Rightarrow> error + 'v" where
  "getitem d k = (case map_of d k of None \<Rightarrow> Inl KeyError | Some v \<Rightarrow> Inr v)"

section \<open>External collaborators\<close>

text \<open>
  A batch encoding is the dict the tokenizer returns: tensor name to a two-dimensional
  integer tensor (batch, position).
\<close>

type_synonym encoding = "(string \<times> int list list) list"

text \<open>
  The tokenizer of the \<open>transformers\<close> library, by the members the transformation uses.
  \<open>encode_plus\<close> takes the text and \<open>max_length\<close>; the other arguments are the
  constants of \<open>_encode_text\<close> (truncation on, padding to \<open>max_length\<close>, tensors returned).
\<close>

record tokenizer =
  mask_token :: string
  mask_token_id :: int
  encode_plus :: "string \<Rightarrow> int \<Rightarrow> encoding"
  convert_ids_to_tokens :: "nat \<Rightarrow> string"

text \<open>
  A masked language model: calling it on an encoding gives (as element 0 of its output)
  the logits, indexed batch, position, vocabulary id; or it raises. The logits are real
  numbers here, the idealisation of the floats of the source.
\<close>

record masked_lm =
  forward :: "encoding \<Rightarrow> error + real list list list"
  class_name :: string

text \<open>\<open>textattack.shared.utils\<close>, by the two predicates the transformation calls.\<close>

record utils =
  is_one_word :: "string \<Rightarrow> bool"
  check_if_subword :: "string \<Rightarrow> string \<Rightarrow> bool"

text \<open>\<open>torch.softmax(v, dim=0)\<close> on a vector.\<close>

definition softmax :: "real list \<Rightarrow> real list" where
  "softmax v = map (\<lambda>x. exp x / sum_list (map exp v)) v"

text \<open>
  \<open>torch.argsort(v)\<close>: the positions of \<open>v\<close> ordered by ascending value (the
  default, \<open>descending=False\<close>). Equal values keep their order here.
\<close>

definition argsort :: "real list \<Rightarrow> nat list" where
  "argsort v = sort_key (\<lambda>i. v ! i) [0..<length v]"

section \<open>AttackedText\<close>

text \<open>
  AttackedText objects live in an append-only store; a reference is a position in it.
\<close>

record attacked_text =
  words :: "string list"
  parent :: "nat option"

type_synonym store = "attacked_text list"

text \<open>
  Modelled from the spec: the \<open>text\<close> property of AttackedText is not among the
  sources. The spec has it reconstruct the surface string from the words; here the
  words are joined by single spaces.
\<close>

fun text_of :: "string list \<Rightarrow> string" where
  "text_of [] = []"
| "text_of [w] = w"
| "text_of (w # ws) = w @ '' '' @ text_of ws"

text \<open>
  Modelled from the spec: \<open>AttackedText.insert_text_before_word_index\<close> is not among
  the sources. By the spec it returns a new AttackedText with the updated token sequence,
  derived from (and referencing) its parent, and never changes the instance it is called
  on. The spec does not say what an index without a word does; here it raises IndexError.
\<close>

definition insert_text_before_word_index ::
  "store \<Rightarrow> nat \<Rightarrow> int \<Rightarrow> string \<Rightarrow> (error + nat) \<times> store" where
  "insert_text_before_word_index h a i txt =
     (if a < length h then
        (let ws = words (h ! a) in
         if 0 \<le> i \<and> i < int (length ws) then
           (Inr (length h),
            h @ [\<lparr>words = take (nat i) ws @ [txt] @ drop (nat i) ws, parent = Some a\<rparr>])
         else (Inl IndexError, h))
      else (Inl InvalidReference, h))"

section \<open>WordInsertionMaskedLM\<close>

text \<open>The attributes of an instance, as \<open>__init__\<close> assigns them.\<close>

record transformation =
  max_length :: int
  max_candidates :: int
  min_confidence :: real
  lm_tokenizer :: tokenizer
  language_model :: masked_lm
  masked_lm_name :: string

text \<open>
  What a call can change: the store of AttackedText objects, and the number of times the
  masked language model has been invoked.
\<close>

record world =
  heap :: store
  lm_calls :: nat

subsection \<open>\<open>_encode_text\<close>\<close>

text \<open>Moving a tensor to the device does not change its entries.\<close>

definition to_device :: "int list list \<Rightarrow> int list list" where
  "to_device t = t"

definition encode_text :: "transformation \<Rightarrow> string \<Rightarrow> encoding" where
  "encode_text self txt =
     map (\<lambda>(k, v). (k, to_device v)) (encode_plus (lm_tokenizer self) txt (max_length self))"

subsection \<open>\<open>_get_new_words\<close>\<close>

text \<open>
  Lines 74 to 77: the text with the mask token inserted before word \<open>index\<close> is a new
  AttackedText; its surface text is encoded.
\<close>

definition masked_inputs ::
  "transformation \<Rightarrow> store \<Rightarrow> nat \<Rightarrow> int \<Rightarrow> (error + encoding) \<times> store" where
  "masked_inputs self h current_text index =
     (case insert_text_before_word_index h current_text index (mask_token (lm_tokenizer self)) of
        (Inl e, h') \<Rightarrow> (Inl e, h')
      | (Inr masked_attacked_text, h') \<Rightarrow>
          (case item h' masked_attacked_text of
             Inl e \<Rightarrow> (Inl e, h')
           | Inr t \<Rightarrow> (Inr (encode_text self (text_of (words t))), h')))"

text \<open>Line 78: \<^verbatim>\<open>inputs["input_ids"].tolist()[0]\<close>.\<close>

definition input_ids :: "encoding \<Rightarrow> error + int list" where
  "input_ids inputs =
     (case getitem inputs ''input_ids'' of Inl e \<Rightarrow> Inl e | Inr t \<Rightarrow> item t 0)"

text \<open>One invocation of the language model, counted.\<close>

definition call_language_model ::
  "transformation \<Rightarrow> encoding \<Rightarrow> world \<Rightarrow> (error + real list list list) \<times> world" where
  "call_language_model self inputs w =
     (forward (language_model self) inputs, w\<lparr>lm_calls := Suc (lm_calls w)\<rparr>)"

text \<open>
  Lines 93 to 104: the loop over the ranked vocabulary ids. The length test follows the
  append, inside the loop body.
\<close>

fun collect ::
  "utils \<Rightarrow> transformation \<Rightarrow> real list \<Rightarrow> nat list \<Rightarrow> string list \<Rightarrow> string list" where
  "collect u self mask_token_probs [] replacement_words = replacement_words"
| "collect u self mask_token_probs (i # ranked) replacement_words =
     (let token = convert_ids_to_tokens (lm_tokenizer self) i;
          replacement_words' =
            (if is_one_word u token \<and> \<not> check_if_subword u (masked_lm_name self) token
             then (if mask_token_probs ! i > min_confidence self
                   then replacement_words @ [token] else replacement_words)
             else replacement_words)
      in if int (length replacement_words') \<ge> max_candidates self then replacement_words'
         else collect u self mask_token_probs ranked replacement_words')"

text \<open>Lines 91 to 104.\<close>

definition rank_words :: "utils \<Rightarrow> transformation \<Rightarrow> real list \<Rightarrow> string list" where
  "rank_words u self mask_token_probs =
     collect u self mask_token_probs (argsort mask_token_probs) []"

definition get_new_words ::
  "utils \<Rightarrow> transformation \<Rightarrow> world \<Rightarrow> nat \<Rightarrow> int \<Rightarrow> (error + string list) \<times> world" where
  "get_new_words u self w current_text index =
     (case masked_inputs self (heap w) current_text index of
        (Inl e, h') \<Rightarrow> (Inl e, w\<lparr>heap := h'\<rparr>)
      | (Inr inputs, h') \<Rightarrow>
          (let w1 = w\<lparr>heap := h'\<rparr> in
           case input_ids inputs of
             Inl e \<Rightarrow> (Inl e, w1)
           | Inr ids \<Rightarrow>
               (case list_index ids (mask_token_id (lm_tokenizer self)) of
                  Inl e \<Rightarrow> (if e = ValueError then (Inr [], w1) else (Inl e, w1))
                | Inr masked_index \<Rightarrow>
                    (case call_language_model self inputs w1 of
                       (Inl e, w2) \<Rightarrow> (Inl e, w2)
                     | (Inr preds, w2) \<Rightarrow>
                         (case item2 preds 0 masked_index of
                            Inl e \<Rightarrow> (Inl e, w2)
                          | Inr mask_token_logits \<Rightarrow>
                              (Inr (rank_words u self (softmax mask_token_logits)), w2))))))"

text \<open>
  The probabilities of line 90 for a call: the softmax over the vocabulary at the masked
  position, \<open>None\<close> where the call returns or raises before computing them.
\<close>

definition masked_position_probs ::
  "transformation \<Rightarrow> world \<Rightarrow> nat \<Rightarrow> int \<Rightarrow> real list option" where
  "masked_position_probs self w current_text index =
     (case masked_inputs self (heap w) current_text index of
        (Inl e, h') \<Rightarrow> None
      | (Inr inputs, h') \<Rightarrow>
          (case input_ids inputs of
             Inl e \<Rightarrow> None
           | Inr ids \<Rightarrow>
               (case list_index ids (mask_token_id (lm_tokenizer self)) of
                  Inl e \<Rightarrow> None
                | Inr masked_index \<Rightarrow>
                    (case forward (language_model self) inputs of
                       Inl e \<Rightarrow> None
                     | Inr preds \<Rightarrow>
                         (case item2 preds 0 masked_index of
                            Inl e \<Rightarrow> None
                          | Inr mask_token_logits \<Rightarrow> Some (softmax mask_token_logits))))))"

text \<open>
  The encoded ids of a call (line 78), \<open>None\<close> where the call raises before it has them.
\<close>

definition encoded_ids :: "transformation \<Rightarrow> world \<Rightarrow> nat \<Rightarrow> int \<Rightarrow> int list option" where
  "encoded_ids self w current_text index =
     (case masked_inputs self (heap w) current_text index of
        (Inl e, h') \<Rightarrow> None
      | (Inr inputs, h') \<Rightarrow>
          (case input_ids inputs of Inl e \<Rightarrow> None | Inr ids \<Rightarrow> Some ids))"

subsection \<open>\<open>extra_repr_keys\<close>\<close>

definition extra_repr_keys :: "transformation \<Rightarrow> string list" where
  "extra_repr_keys self = [''masked_lm_name '', ''max_length'', ''max_candidates'', ''min_confidence'']"

text \<open>
  The instance dictionary: each name \<open>__init__\<close> assigns on \<open>self\<close> (lines 33 to 48),
  with its value. \<open>getattr\<close> reads it and raises AttributeError for any other name.
\<close>

datatype pyval =
    PInt int
  | PFloat real
  | PStr string
  | PTokenizer tokenizer
  | PModel masked_lm

definition attributes :: "transformation \<Rightarrow> (string \<times> pyval) list" where
  "attributes self =
     [(''max_length'', PInt (max_length self)),
      (''max_candidates'', PInt (max_candidates self)),
      (''min_confidence'', PFloat (min_confidence self)),
      (''_lm_tokenizer'', PTokenizer (lm_tokenizer self)),
      (''_language_model'', PModel (language_model self)),
      (''masked_lm_name'', PStr (masked_lm_name self))]"

definition getattr :: "transformation \<Rightarrow> string \<Rightarrow> error + pyval" where
  "getattr self name =
     (case map_of (attributes self) name of None \<Rightarrow> Inl AttributeError | Some v \<Rightarrow> Inr v)"

subsection \<open>\<open>__init__\<close>\<close>

text \<open>
  The \<open>masked_language_model\<close> argument: the name of a pretrained model, or a model.
\<close>

datatype mlm_arg = Name string | Model masked_lm

text \<open>
  What the constructor calls outside this class: the base class constructor, the two
  \<open>from_pretrained\<close> loaders, and the class test that a two-argument \<open>isinstance\<close>
  would make.
\<close>

record hub =
  super_init :: "(string \<times> string) list \<Rightarrow> error + unit"
  tokenizer_from_pretrained :: "mlm_arg \<Rightarrow> error + tokenizer"
  model_from_pretrained :: "mlm_arg \<Rightarrow> error + masked_lm"
  instance_of :: "mlm_arg \<Rightarrow> mlm_arg \<Rightarrow> bool"

text \<open>
  The builtin \<open>isinstance\<close> takes exactly two arguments, the object and the class; a
  call with any other number of arguments raises TypeError.
\<close>

definition isinstance :: "hub \<Rightarrow> mlm_arg list \<Rightarrow> error + bool" where
  "isinstance hb args =
     (case args of [obj, cls] \<Rightarrow> Inr (instance_of hb obj cls) | _ \<Rightarrow> Inl TypeError)"

text \<open>
  Lines 32 to 48. Line 40 calls \<open>isinstance\<close> with the single argument
  \<open>masked_language_model\<close>. In the else branch a name (a \<open>str\<close>) has no method
  \<open>to\<close>: AttributeError. Moving the model to the device and \<open>eval()\<close> leave it as it is.
\<close>

definition init ::
  "hub \<Rightarrow> mlm_arg \<Rightarrow> int \<Rightarrow> int \<Rightarrow> real \<Rightarrow> (string \<times> string) list \<Rightarrow> error + transformation" where
  "init hb masked_language_model max_len max_cand min_conf kwargs =
     (case super_init hb kwargs of
        Inl e \<Rightarrow> Inl e
      | Inr _ \<Rightarrow>
          (case tokenizer_from_pretrained hb masked_language_model of
             Inl e \<Rightarrow> Inl e
           | Inr tok \<Rightarrow>
               (case isinstance hb [masked_language_model] of
                  Inl e \<Rightarrow> Inl e
                | Inr b \<Rightarrow>
                    (case (if b then model_from_pretrained hb masked_language_model
                           else (case masked_language_model of
                                   Model m \<Rightarrow> Inr m
                                 | Name s \<Rightarrow> Inl AttributeError)) of
                       Inl e \<Rightarrow> Inl e
                     | Inr m \<Rightarrow>
                         Inr \<lparr>max_length = max_len, max_candidates = max_cand,
                              min_confidence = min_conf, lm_tokenizer = tok,
                              language_model = m, masked_lm_name = class_name m\<rparr>))))"

section \<open>A small tokenizer, model and text\<close>

text \<open>
  A six-token vocabulary, a tokenizer that splits at spaces, truncates to \<open>max_length\<close>
  and pads with id 0, and a model that gives every position the same logits.
\<close>

definition ex_vocab :: "string list" where
  "ex_vocab = [''[PAD]'', ''[UNK]'', ''[MASK]'', ''low'', ''high'', ''##ly'']"

fun split_words :: "string \<Rightarrow> string \<Rightarrow> string list" where
  "split_words cur [] = (if cur = [] then [] else [cur])"
| "split_words cur (c # cs) =
     (if c = CHR '' '' then (if cur = [] then split_words [] cs else cur # split_words [] cs)
      else split_words (cur @ [c]) cs)"

definition ex_token_id :: "string \<Rightarrow> int" where
  "ex_token_id t = (case list_index ex_vocab t of Inl e \<Rightarrow> 1 | Inr n \<Rightarrow> int n)"

definition ex_encode_plus :: "string \<Rightarrow> int \<Rightarrow> encoding" where
  "ex_encode_plus txt n =
     (let ids = take (nat n) (map ex_token_id (split_words [] txt))
      in [(''input_ids'', [ids @ replicate (nat n - length ids) 0])])"

definition ex_tokenizer :: tokenizer where
  "ex_tokenizer =
     \<lparr>mask_token = ''[MASK]'', mask_token_id = 2, encode_plus = ex_encode_plus,
      convert_ids_to_tokens = (\<lambda>i. if i < length ex_vocab then ex_vocab ! i else ''[UNK]'')\<rparr>"

definition ex_logits :: "real list" where
  "ex_logits = [3, 3, 3, 0, 1, 2]"

definition ex_forward :: "encoding \<Rightarrow> error + real list list list" where
  "ex_forward inputs =
     (case input_ids inputs of Inl e \<Rightarrow> Inl e | Inr ids \<Rightarrow> Inr [map (\<lambda>_. ex_logits) ids])"

definition ex_model :: masked_lm where
  "ex_model = \<lparr>forward = ex_forward, class_name = ''BertForMaskedLM''\<rparr>"

definition ex_utils :: utils where
  "ex_utils =
     \<lparr>is_one_word = (\<lambda>t. t \<noteq> [] \<and> filter (\<lambda>c. c \<in> set ''[] '') t = []),
      check_if_subword = (\<lambda>name t. take 2 t = ''##'')\<rparr>"

definition ex_self :: "int \<Rightarrow> int \<Rightarrow> transformation" where
  "ex_self n k =
     \<lparr>max_length = n, max_candidates = k, min_confidence = 0, lm_tokenizer = ex_tokenizer,
      language_model = ex_model, masked_lm_name = ''BertForMaskedLM''\<rparr>"

definition ex_world :: world where
  "ex_world = \<lparr>heap = [\<lparr>words = [''high'', ''low'', ''high''], parent = None\<rparr>], lm_calls = 0\<rparr>"

definition ex_hub :: hub where
  "ex_hub =
     \<lparr>super_init = (\<lambda>kwargs. Inr ()),
      tokenizer_from_pretrained = (\<lambda>m. Inr ex_tokenizer),
      model_from_pretrained = (\<lambda>m. Inr ex_model),
      instance_of = (\<lambda>obj cls. False)\<rparr>"

definition ex_total :: real where
  "ex_total = exp 3 + exp 3 + exp 3 + 1 + exp 1 + exp 2"

section \<open>Facts about the list operations\<close>

lemma list_index_Inl: "list_index xs x = Inl e \<Longrightarrow> e = ValueError \<and> x \<notin> set xs"
  by (induction xs) (auto split: if_splits sum.splits)

lemma list_index_Inr: "list_index xs x = Inr n \<Longrightarrow> n < length xs \<and> xs ! n = x"
  by (induction xs arbitrary: n) (auto split: if_splits sum.splits)

lemma list_index_absent: "x \<notin> set xs \<Longrightarrow> list_index xs x = Inl ValueError"
  by (induction xs) auto

lemma list_index_present: "x \<in> set xs \<Longrightarrow> \<exists>n. list_index xs x = Inr n"
  by (induction xs) (auto split: sum.splits dest: list_index_Inl)

lemma set_argsort: "set (argsort v) = {0..<length v}"
  by (simp add: argsort_def)

section \<open>Facts about the store\<close>

lemma insert_extends:
  "insert_text_before_word_index h a i txt = (r, h') \<Longrightarrow> \<exists>new. h' = h @ new"
  by (auto simp: insert_text_before_word_index_def Let_def split: if_splits)

lemma masked_inputs_extends:
  "masked_inputs self h a i = (r, h') \<Longrightarrow> \<exists>new. h' = h @ new"
  by (auto simp: masked_inputs_def split: prod.splits sum.splits dest: insert_extends)

lemma get_new_words_heap:
  "heap (snd (get_new_words u self w a i)) = snd (masked_inputs self (heap w) a i)"
  by (auto simp: get_new_words_def call_language_model_def Let_def split: prod.splits sum.splits)

section \<open>Facts about the loop\<close>

lemma collect_accepts:
  "tok \<in> set (collect u self probs ranked acc) \<Longrightarrow>
   tok \<in> set acc \<or>
   (\<exists>i \<in> set ranked. convert_ids_to_tokens (lm_tokenizer self) i = tok \<and>
      is_one_word u tok \<and> \<not> check_if_subword u (masked_lm_name self) tok \<and>
      min_confidence self < probs ! i)"
proof (induction ranked arbitrary: acc)
  case Nil
  then show ?case by simp
next
  case (Cons i ranked)
  define token where "token = convert_ids_to_tokens (lm_tokenizer self) i"
  define good where
    "good \<longleftrightarrow> is_one_word u token \<and> \<not> check_if_subword u (masked_lm_name self) token \<and>
       min_confidence self < probs ! i"
  define acc' where "acc' = (if good then acc @ [token] else acc)"
  have step: "collect u self probs (i # ranked) acc =
      (if max_candidates self \<le> int (length acc') then acc'
       else collect u self probs ranked acc')"
    by (simp add: Let_def acc'_def good_def token_def)
  have "tok \<in> set acc' \<or>
        (\<exists>j \<in> set ranked. convert_ids_to_tokens (lm_tokenizer self) j = tok \<and>
           is_one_word u tok \<and> \<not> check_if_subword u (masked_lm_name self) tok \<and>
           min_confidence self < probs ! j)"
    using Cons.prems Cons.IH [of acc'] unfolding step by (simp split: if_splits)
  moreover have "tok \<in> set acc' \<Longrightarrow> tok \<in> set acc \<or> (good \<and> tok = token)"
    by (auto simp: acc'_def split: if_splits)
  ultimately show ?case
    unfolding good_def token_def by auto
qed

lemma collect_length:
  "int (length acc) < max_candidates self \<Longrightarrow>
   int (length (collect u self probs ranked acc)) \<le> max_candidates self"
  by (induction ranked arbitrary: acc) (auto simp: Let_def split: if_splits)

lemma collect_length_any:
  "length (collect u self probs ranked []) \<le> nat (max 1 (max_candidates self))"
proof (cases "0 < max_candidates self")
  case True
  then show ?thesis using collect_length [of "[]" self u probs ranked] by simp
next
  case False
  then show ?thesis by (cases ranked) (auto simp: Let_def)
qed

section \<open>Facts about a call of \<open>_get_new_words\<close>\<close>

lemma get_new_words_result:
  "fst (get_new_words u self w a i) = Inr ws \<Longrightarrow>
   ws = [] \<or> (\<exists>probs. masked_position_probs self w a i = Some probs \<and> ws = rank_words u self probs)"
  by (auto simp: get_new_words_def masked_position_probs_def call_language_model_def Let_def
      split: prod.splits sum.splits if_splits)

lemma rank_words_accepts:
  "tok \<in> set (rank_words u self probs) \<Longrightarrow>
   \<exists>i. i < length probs \<and> convert_ids_to_tokens (lm_tokenizer self) i = tok \<and>
     is_one_word u tok \<and> \<not> check_if_subword u (masked_lm_name self) tok \<and>
     min_confidence self < probs ! i"
  using collect_accepts [of tok u self probs "argsort probs" "[]"]
  by (auto simp: rank_words_def set_argsort)

lemma list_index_Inr_mem: "list_index xs x = Inr n \<Longrightarrow> x \<in> set xs"
  using list_index_absent [of x xs] by auto

lemma get_new_words_calls:
  "lm_calls (snd (get_new_words u self w a i)) =
     (case encoded_ids self w a i of
        None \<Rightarrow> lm_calls w
      | Some ids \<Rightarrow>
          if mask_token_id (lm_tokenizer self) \<in> set ids then Suc (lm_calls w) else lm_calls w)"
  by (auto simp: get_new_words_def encoded_ids_def call_language_model_def Let_def
      split: prod.splits sum.splits dest: list_index_Inl list_index_Inr_mem)

lemma rank_words_length:
  "length (rank_words u self probs) \<le> nat (max 1 (max_candidates self))"
  by (simp add: rank_words_def collect_length_any)

lemma get_new_words_length:
  "fst (get_new_words u self w a i) = Inr ws \<Longrightarrow> length ws \<le> nat (max 1 (max_candidates self))"
  using rank_words_length by (auto dest!: get_new_words_result)

text \<open>
  The loop walks the ids in the order \<open>argsort\<close> gives, so what it returns is in
  ascending order of probability.
\<close>

lemma collect_ascending:
  "sorted (map (\<lambda>i. probs ! i) ranked) \<Longrightarrow>
   \<exists>js. collect u self probs ranked acc = acc @ map (convert_ids_to_tokens (lm_tokenizer self)) js \<and>
     set js \<subseteq> set ranked \<and> sorted (map (\<lambda>i. probs ! i) js)"
proof (induction ranked arbitrary: acc)
  case Nil
  then show ?case by simp
next
  case (Cons i ranked)
  let ?conv = "convert_ids_to_tokens (lm_tokenizer self)"
  have low: "\<forall>j \<in> set ranked. probs ! i \<le> probs ! j" and rest: "sorted (map (\<lambda>i. probs ! i) ranked)"
    using Cons.prems by auto
  define good where
    "good \<longleftrightarrow> is_one_word u (?conv i) \<and> \<not> check_if_subword u (masked_lm_name self) (?conv i) \<and>
       min_confidence self < probs ! i"
  define acc' where "acc' = (if good then acc @ [?conv i] else acc)"
  have step: "collect u self probs (i # ranked) acc =
      (if max_candidates self \<le> int (length acc') then acc'
       else collect u self probs ranked acc')"
    by (simp add: Let_def acc'_def good_def)
  obtain js where js: "collect u self probs ranked acc' = acc' @ map ?conv js"
    "set js \<subseteq> set ranked" "sorted (map (\<lambda>i. probs ! i) js)"
    using Cons.IH [OF rest, of acc'] by blast
  show ?case
  proof (cases "max_candidates self \<le> int (length acc')")
    case True
    then have "collect u self probs (i # ranked) acc = acc @ map ?conv (if good then [i] else [])"
      by (simp add: step acc'_def del: collect.simps)
    then show ?thesis
      by (intro exI [of _ "if good then [i] else []"]) simp
  next
    case False
    then have "collect u self probs (i # ranked) acc = acc' @ map ?conv js"
      by (simp add: step js(1) del: collect.simps)
    then have "collect u self probs (i # ranked) acc = acc @ map ?conv (if good then i # js else js)"
      by (simp add: acc'_def del: collect.simps)
    moreover have "sorted (map (\<lambda>i. probs ! i) (if good then i # js else js))"
      using js(2,3) low by auto
    moreover have "set (if good then i # js else js) \<subseteq> set (i # ranked)"
      using js(2) by auto
    ultimately show ?thesis by blast
  qed
qed

lemma rank_words_ascending:
  "\<exists>js. rank_words u self probs = map (convert_ids_to_tokens (lm_tokenizer self)) js \<and>
     set js \<subseteq> {0..<length probs} \<and> sorted (map (\<lambda>i. probs ! i) js)"
  using collect_ascending [of probs "argsort probs" u self "[]"]
  by (simp add: rank_words_def argsort_def)

section \<open>Facts about the constructor\<close>

lemma init_never_returns: "init hb m max_len max_cand min_conf kwargs \<noteq> Inr self"
  by (simp add: init_def isinstance_def split: sum.splits)

lemma init_ignores_model_loader:
  "init (hb\<lparr>model_from_pretrained := f\<rparr>) m max_len max_cand min_conf kwargs =
   init hb m max_len max_cand min_conf kwargs"
  by (simp add: init_def isinstance_def split: sum.splits)

section \<open>The example, evaluated\<close>

lemma ex_masked_inputs_8:
  "masked_inputs (ex_self 8 k) (heap ex_world) 0 1 =
     (Inr [(''input_ids'', [[4, 2, 3, 4, 0, 0, 0, 0]])],
      [\<lparr>words = [''high'', ''low'', ''high''], parent = None\<rparr>,
       \<lparr>words = [''high'', ''[MASK]'', ''low'', ''high''], parent = Some 0\<rparr>])"
  by (simp add: masked_inputs_def ex_self_def ex_world_def insert_text_before_word_index_def
      item_def encode_text_def ex_tokenizer_def ex_encode_plus_def ex_token_id_def ex_vocab_def
      to_device_def Let_def eval_nat_numeral)

lemma ex_masked_inputs_2:
  "masked_inputs (ex_self 2 k) (heap ex_world) 0 2 =
     (Inr [(''input_ids'', [[4, 3]])],
      [\<lparr>words = [''high'', ''low'', ''high''], parent = None\<rparr>,
       \<lparr>words = [''high'', ''low'', ''[MASK]'', ''high''], parent = Some 0\<rparr>])"
  by (simp add: masked_inputs_def ex_self_def ex_world_def insert_text_before_word_index_def
      item_def encode_text_def ex_tokenizer_def ex_encode_plus_def ex_token_id_def ex_vocab_def
      to_device_def Let_def eval_nat_numeral)

lemma ex_input_ids: "input_ids [(''input_ids'', [ids])] = Inr ids"
  by (simp add: input_ids_def getitem_def item_def)

lemma ex_mask_token_id: "mask_token_id (lm_tokenizer (ex_self n k)) = 2"
  by (simp add: ex_self_def ex_tokenizer_def)

lemma ex_forward_8:
  "forward (language_model (ex_self n k)) [(''input_ids'', [[4, 2, 3, 4, 0, 0, 0, 0]])] =
     Inr [[ex_logits, ex_logits, ex_logits, ex_logits, ex_logits, ex_logits, ex_logits, ex_logits]]"
  by (simp add: ex_self_def ex_model_def ex_forward_def ex_input_ids)

lemma ex_get_new_words_8:
  "get_new_words ex_utils (ex_self 8 k) ex_world 0 1 =
     (Inr (rank_words ex_utils (ex_self 8 k) (softmax ex_logits)),
      \<lparr>heap = [\<lparr>words = [''high'', ''low'', ''high''], parent = None\<rparr>,
               \<lparr>words = [''high'', ''[MASK]'', ''low'', ''high''], parent = Some 0\<rparr>],
       lm_calls = 1\<rparr>)"
  by (simp add: get_new_words_def ex_masked_inputs_8 ex_input_ids ex_mask_token_id
      call_language_model_def ex_forward_8 item2_def item_def)
    (simp add: ex_world_def)

lemma ex_probs_8:
  "masked_position_probs (ex_self 8 k) ex_world 0 1 = Some (softmax ex_logits)"
  by (simp add: masked_position_probs_def ex_masked_inputs_8 ex_input_ids ex_mask_token_id
      ex_forward_8 item2_def item_def)

lemma ex_encoded_ids_8: "encoded_ids (ex_self 8 k) ex_world 0 1 = Some [4, 2, 3, 4, 0, 0, 0, 0]"
  by (simp add: encoded_ids_def ex_masked_inputs_8 ex_input_ids)

lemma ex_encoded_ids_2: "encoded_ids (ex_self 2 k) ex_world 0 2 = Some [4, 3]"
  by (simp add: encoded_ids_def ex_masked_inputs_2 ex_input_ids)

lemma ex_total_pos: "0 < ex_total"
  by (simp add: ex_total_def add_pos_pos)

lemma ex_total_not_neg: "\<not> ex_total < 0"
  using ex_total_pos by simp

lemma ex_softmax:
  "softmax ex_logits =
     [exp 3 / ex_total, exp 3 / ex_total, exp 3 / ex_total, 1 / ex_total, exp 1 / ex_total,
      exp 2 / ex_total]"
  by (simp add: softmax_def ex_logits_def ex_total_def add.assoc)

lemma ex_argsort: "argsort (softmax ex_logits) = [3, 4, 5, 0, 1, 2]"
  by (simp add: argsort_def ex_softmax upt_rec divide_le_cancel ex_total_pos ex_total_not_neg)

lemma ex_rank_words_50:
  "rank_words ex_utils (ex_self n 50) (softmax ex_logits) = [''low'', ''high'']"
  by (simp add: rank_words_def ex_argsort)
    (simp add: ex_softmax ex_self_def ex_utils_def ex_tokenizer_def ex_vocab_def ex_total_pos)

lemma ex_rank_words_0:
  "rank_words ex_utils (ex_self n 0) (softmax ex_logits) = [''low'']"
  by (simp add: rank_words_def ex_argsort)
    (simp add: ex_softmax ex_self_def ex_utils_def ex_tokenizer_def ex_vocab_def ex_total_pos)

lemma ex_convert:
  "convert_ids_to_tokens (lm_tokenizer (ex_self n k)) 3 = ''low''"
  "convert_ids_to_tokens (lm_tokenizer (ex_self n k)) 4 = ''high''"
  by (simp_all add: ex_self_def ex_tokenizer_def ex_vocab_def)

lemma ex_softmax_low_high: "softmax ex_logits ! 3 < softmax ex_logits ! 4"
  using ex_total_pos by (simp add: ex_softmax divide_less_cancel)

section \<open>The claims\<close>

text \<open>
  Claim C1. When the mask token id does not occur in the encoded ids of the masked text
  (the mask was truncated away), \<open>_get_new_words\<close> returns the empty list and raises
  nothing: the missing id is found out by the search of the ids, whose ValueError is caught.
\<close>

theorem truncated_mask_gives_no_words:
  assumes "encoded_ids self w current_text index = Some ids"
    and "mask_token_id (lm_tokenizer self) \<notin> set ids"
  shows "fst (get_new_words u self w current_text index) = Inr []"
  using assms
  by (auto simp: encoded_ids_def get_new_words_def Let_def list_index_absent
      split: prod.splits sum.splits)

theorem truncated_mask_gives_no_words_witness:
  "encoded_ids (ex_self 2 50) ex_world 0 2 = Some [4, 3] \<and>
   mask_token_id (lm_tokenizer (ex_self 2 50)) \<notin> set [4, 3] \<and>
   fst (get_new_words ex_utils (ex_self 2 50) ex_world 0 2) = Inr []"
proof -
  have ids: "encoded_ids (ex_self 2 50) ex_world 0 2 = Some [4, 3]"
    by (rule ex_encoded_ids_2)
  have absent: "mask_token_id (lm_tokenizer (ex_self 2 50)) \<notin> set [4, 3]"
    by (simp add: ex_mask_token_id)
  show ?thesis
    using truncated_mask_gives_no_words [OF ids absent, of ex_utils] ids absent by simp
qed

text \<open>
  Claim C2. The claim asks for descending confidence. The call on the example text, with
  the mask before word 1, returns \<open>low\<close> before \<open>high\<close>, and the probability of
  \<open>low\<close> (id 3) at the masked position is below that of \<open>high\<close> (id 4): the order is
  ascending, as \<open>argsort\<close> without \<open>descending\<close> gives it.
\<close>

theorem ascending_order_at_example:
  "fst (get_new_words ex_utils (ex_self 8 50) ex_world 0 1) = Inr [''low'', ''high''] \<and>
   convert_ids_to_tokens (lm_tokenizer (ex_self 8 50)) 3 = ''low'' \<and>
   convert_ids_to_tokens (lm_tokenizer (ex_self 8 50)) 4 = ''high'' \<and>
   (\<exists>probs. masked_position_probs (ex_self 8 50) ex_world 0 1 = Some probs \<and>
      probs ! 3 < probs ! 4)"
  by (simp add: ex_get_new_words_8 ex_rank_words_50 ex_probs_8 ex_convert ex_softmax_low_high)

text \<open>
  Claim C3. The constructor called with its default arguments raises TypeError at line 40,
  where \<open>isinstance\<close> gets one argument: no model is loaded and no instance is built.
\<close>

theorem init_raises_at_example:
  "init ex_hub (Name ''bert-base-uncased'') 512 50 (5 / 10000) [] = Inl TypeError"
  by (simp add: init_def ex_hub_def isinstance_def)

text \<open>
  Claim C4. With \<open>max_candidates = 0\<close> the call on the example text returns one word:
  the length test comes after the append, so the first id of the ranking is taken before
  the loop stops.
\<close>

theorem one_word_over_zero_candidates:
  "max_candidates (ex_self 8 0) = 0 \<and>
   fst (get_new_words ex_utils (ex_self 8 0) ex_world 0 1) = Inr [''low'']"
  by (simp add: ex_get_new_words_8 ex_rank_words_0) (simp add: ex_self_def)

text \<open>
  Claim C5. Every word \<open>_get_new_words\<close> returns is the token of a vocabulary id whose
  softmax probability at the masked position is strictly greater than \<open>min_confidence\<close>.
\<close>

theorem returned_words_exceed_min_confidence:
  assumes "fst (get_new_words u self w current_text index) = Inr ws"
    and "tok \<in> set ws"
  shows "\<exists>probs i. masked_position_probs self w current_text index = Some probs \<and>
           i < length probs \<and> convert_ids_to_tokens (lm_tokenizer self) i = tok \<and>
           min_confidence self < probs ! i"
proof -
  from assms obtain probs where
    probs: "masked_position_probs self w current_text index = Some probs"
    and ws: "ws = rank_words u self probs"
    using get_new_words_result [of u self w current_text index ws] by auto
  from assms(2) ws obtain i where
    "i < length probs" "convert_ids_to_tokens (lm_tokenizer self) i = tok"
    "min_confidence self < probs ! i"
    using rank_words_accepts [of tok u self probs] by auto
  with probs show ?thesis by blast
qed

theorem returned_words_exceed_min_confidence_witness:
  "fst (get_new_words ex_utils (ex_self 8 50) ex_world 0 1) = Inr [''low'', ''high''] \<and>
   ''high'' \<in> set [''low'', ''high''] \<and>
   (\<exists>probs i. masked_position_probs (ex_self 8 50) ex_world 0 1 = Some probs \<and>
      i < length probs \<and> convert_ids_to_tokens (lm_tokenizer (ex_self 8 50)) i = ''high'' \<and>
      min_confidence (ex_self 8 50) < probs ! i)"
proof -
  have run: "fst (get_new_words ex_utils (ex_self 8 50) ex_world 0 1) = Inr [''low'', ''high'']"
    by (simp add: ex_get_new_words_8 ex_rank_words_50)
  have mem: "''high'' \<in> set [''low'', ''high'']"
    by simp
  show ?thesis
    using returned_words_exceed_min_confidence [OF run mem] run mem by simp
qed

text \<open>
  Claim C6. Every word \<open>_get_new_words\<close> returns passes \<open>utils.is_one_word\<close> and is
  not flagged by \<open>utils.check_if_subword\<close> for the model name of the instance.
\<close>

theorem returned_words_are_single_words:
  assumes "fst (get_new_words u self w current_text index) = Inr ws"
    and "tok \<in> set ws"
  shows "is_one_word u tok \<and> \<not> check_if_subword u (masked_lm_name self) tok"
proof -
  from assms obtain probs where "ws = rank_words u self probs"
    using get_new_words_result [of u self w current_text index ws] by auto
  with assms(2) show ?thesis
    using rank_words_accepts [of tok u self probs] by auto
qed

theorem returned_words_are_single_words_witness:
  "fst (get_new_words ex_utils (ex_self 8 50) ex_world 0 1) = Inr [''low'', ''high''] \<and>
   ''low'' \<in> set [''low'', ''high''] \<and>
   is_one_word ex_utils ''low'' \<and>
   \<not> check_if_subword ex_utils (masked_lm_name (ex_self 8 50)) ''low''"
proof -
  have run: "fst (get_new_words ex_utils (ex_self 8 50) ex_world 0 1) = Inr [''low'', ''high'']"
    by (simp add: ex_get_new_words_8 ex_rank_words_50)
  have mem: "''low'' \<in> set [''low'', ''high'']"
    by simp
  show ?thesis
    using returned_words_are_single_words [OF run mem] run mem by simp
qed

text \<open>
  Claim C7. A call of \<open>_get_new_words\<close> invokes the masked language model at most once:
  once when the mask token id is among the encoded ids, not at all when it is not.
\<close>

theorem language_model_called_at_most_once:
  "lm_calls (snd (get_new_words u self w current_text index)) \<le> Suc (lm_calls w) \<and>
   (encoded_ids self w current_text index = Some ids \<longrightarrow>
      lm_calls (snd (get_new_words u self w current_text index)) =
        (if mask_token_id (lm_tokenizer self) \<in> set ids then Suc (lm_calls w) else lm_calls w))"
  by (simp add: get_new_words_calls split: option.splits)

theorem language_model_called_at_most_once_witness:
  "encoded_ids (ex_self 8 50) ex_world 0 1 = Some [4, 2, 3, 4, 0, 0, 0, 0] \<and>
   lm_calls (snd (get_new_words ex_utils (ex_self 8 50) ex_world 0 1)) = Suc (lm_calls ex_world) \<and>
   encoded_ids (ex_self 2 50) ex_world 0 2 = Some [4, 3] \<and>
   lm_calls (snd (get_new_words ex_utils (ex_self 2 50) ex_world 0 2)) = lm_calls ex_world"
  using language_model_called_at_most_once
      [of ex_utils "ex_self 8 50" ex_world 0 1 "[4, 2, 3, 4, 0, 0, 0, 0]"]
    language_model_called_at_most_once [of ex_utils "ex_self 2 50" ex_world 0 2 "[4, 3]"]
  by (simp add: ex_encoded_ids_8 ex_encoded_ids_2 ex_mask_token_id)

text \<open>
  Claim C8. \<open>_get_new_words\<close> leaves \<open>current_text\<close> as it was: the object at that
  reference has the same words after the call, and every object of the store before the
  call is still there unchanged; the masked text is a new object behind them.
\<close>

theorem get_new_words_keeps_current_text:
  assumes "current_text < length (heap w)"
  shows "words (heap (snd (get_new_words u self w current_text index)) ! current_text) =
           words (heap w ! current_text) \<and>
         take (length (heap w)) (heap (snd (get_new_words u self w current_text index))) = heap w"
proof -
  obtain r h' where run: "masked_inputs self (heap w) current_text index = (r, h')"
    by (cases "masked_inputs self (heap w) current_text index")
  then obtain new where "h' = heap w @ new"
    using masked_inputs_extends by blast
  with run assms show ?thesis
    by (simp add: get_new_words_heap nth_append)
qed

theorem get_new_words_keeps_current_text_witness:
  "(0::nat) < length (heap ex_world) \<and>
   words (heap (snd (get_new_words ex_utils (ex_self 8 50) ex_world 0 1)) ! 0) =
     [''high'', ''low'', ''high''] \<and>
   take (length (heap ex_world)) (heap (snd (get_new_words ex_utils (ex_self 8 50) ex_world 0 1))) =
     heap ex_world"
proof -
  have valid: "(0::nat) < length (heap ex_world)"
    by (simp add: ex_world_def)
  show ?thesis
    using get_new_words_keeps_current_text [OF valid, of ex_utils "ex_self 8 50" 1] valid
    by (simp add: ex_world_def)
qed

text \<open>
  Claim C9. \<open>extra_repr_keys\<close> returns the four keys of the source; the first, with its
  trailing space, is not the name of an attribute the constructor sets, so reading it
  raises AttributeError and not every key names an attribute.
\<close>

theorem extra_repr_keys_first_is_no_attribute:
  "extra_repr_keys self =
     [''masked_lm_name '', ''max_length'', ''max_candidates'', ''min_confidence''] \<and>
   hd (extra_repr_keys self) \<notin> set (map fst (attributes self)) \<and>
   getattr self (hd (extra_repr_keys self)) = Inl AttributeError \<and>
   \<not> set (extra_repr_keys self) \<subseteq> set (map fst (attributes self))"
  by (simp add: extra_repr_keys_def attributes_def getattr_def)

text \<open>
  Claim C10. When the language model returns logits for a batch of one with one row per
  encoded id, the position where the mask token id was found is a position of these
  logits: the lookup at line 89 succeeds and the call returns its list of words.
\<close>

theorem masked_index_within_logits:
  assumes "masked_inputs self (heap w) current_text index = (Inr inputs, h')"
    and "input_ids inputs = Inr ids"
    and "list_index ids (mask_token_id (lm_tokenizer self)) = Inr masked_index"
    and "forward (language_model self) inputs = Inr preds"
    and "map length preds = [length ids]"
  shows "masked_index < length ids \<and>
         (\<exists>mask_token_logits. item2 preds 0 masked_index = Inr mask_token_logits \<and>
            fst (get_new_words u self w current_text index) =
              Inr (rank_words u self (softmax mask_token_logits)))"
proof -
  have bound: "masked_index < length ids"
    using assms(3) by (simp add: list_index_Inr)
  from assms(5) obtain rows where preds: "preds = [rows]" and rows: "length rows = length ids"
    by (cases preds) auto
  have lookup: "item2 preds 0 masked_index = Inr (rows ! masked_index)"
    using bound rows by (simp add: preds item2_def item_def)
  have "fst (get_new_words u self w current_text index) =
          Inr (rank_words u self (softmax (rows ! masked_index)))"
    using assms(1-4) lookup by (simp add: get_new_words_def call_language_model_def)
  with bound lookup show ?thesis by simp
qed

theorem masked_index_within_logits_witness:
  "masked_inputs (ex_self 8 50) (heap ex_world) 0 1 =
     (Inr [(''input_ids'', [[4, 2, 3, 4, 0, 0, 0, 0]])],
      [\<lparr>words = [''high'', ''low'', ''high''], parent = None\<rparr>,
       \<lparr>words = [''high'', ''[MASK]'', ''low'', ''high''], parent = Some 0\<rparr>]) \<and>
   list_index [4, 2, 3, 4, 0, 0, 0, 0] (mask_token_id (lm_tokenizer (ex_self 8 50))) = Inr 1 \<and>
   (1::nat) < length [4, 2, 3, 4, 0, 0, 0, 0 :: int] \<and>
   fst (get_new_words ex_utils (ex_self 8 50) ex_world 0 1) =
     Inr (rank_words ex_utils (ex_self 8 50) (softmax ex_logits))"
proof -
  let ?ids = "[4, 2, 3, 4, 0, 0, 0, 0 :: int]"
  let ?preds = "[[ex_logits, ex_logits, ex_logits, ex_logits, ex_logits, ex_logits, ex_logits,
    ex_logits]]"
  have ids: "input_ids [(''input_ids'', [?ids])] = Inr ?ids"
    by (rule ex_input_ids)
  have found: "list_index ?ids (mask_token_id (lm_tokenizer (ex_self 8 50))) = Inr 1"
    by (simp add: ex_mask_token_id)
  have shape: "map length ?preds = [length ?ids]"
    by simp
  show ?thesis
    using masked_index_within_logits
      [OF ex_masked_inputs_8 ids found ex_forward_8 shape, of ex_utils]
      ex_masked_inputs_8 [of 50] found
    by (simp add: item2_def item_def)
qed

end
